theory Spec2Isabelle
  imports Complex_Main "HOL-Library.Multiset"
begin

section \<open>JavaScript numbers\<close>

text \<open>
  The store of \<^verbatim>\<open>createMockStore.ts\<close> computes with JavaScript numbers. The model keeps
  the special values of IEEE arithmetic: the two infinities, not-a-number, and the two
  zeros (\<open>Num 0\<close> is the positive zero, \<open>NegZero\<close> the negative one, and no operation
  returns \<open>Num 0\<close> for a negative zero). A finite number other than a zero is a real:
  the operations are exact, without the rounding, the overflow and the underflow of
  64-bit floating point. No operation on numbers throws in JavaScript, so none of the
  functions below has an error result.
\<close>

datatype jsnum = Num real | NegZero | PosInf | NegInf | NaN

text \<open>The sign bit, the two tests and the value of a finite number.\<close>

definition sign_bit :: "jsnum \<Rightarrow> bool" where
  "sign_bit a =
     (case a of Num r \<Rightarrow> r < 0 | NegZero \<Rightarrow> True | PosInf \<Rightarrow> False | NegInf \<Rightarrow> True
      | NaN \<Rightarrow> False)"

definition is_zero :: "jsnum \<Rightarrow> bool" where
  "is_zero a = (a = Num 0 \<or> a = NegZero)"

definition is_inf :: "jsnum \<Rightarrow> bool" where
  "is_inf a = (a = PosInf \<or> a = NegInf)"

definition finite_value :: "jsnum \<Rightarrow> real" where
  "finite_value a =
     (case a of Num r \<Rightarrow> r | NegZero \<Rightarrow> 0 | PosInf \<Rightarrow> 0 | NegInf \<Rightarrow> 0 | NaN \<Rightarrow> 0)"

text \<open>The zero and the infinity of a given sign bit.\<close>

definition js_zero :: "bool \<Rightarrow> jsnum" where
  "js_zero negative = (if negative then NegZero else Num 0)"

definition js_inf :: "bool \<Rightarrow> jsnum" where
  "js_inf negative = (if negative then NegInf else PosInf)"

text \<open>\<^verbatim>\<open>a / b\<close>: not-a-number for \<^verbatim>\<open>0 / 0\<close> and for an infinity by an infinity; otherwise
  the sign is the exclusive or of the two signs, a division by a zero gives an infinity
  and a division by an infinity a zero.\<close>

definition js_div :: "jsnum \<Rightarrow> jsnum \<Rightarrow> jsnum" where
  "js_div a b =
     (if a = NaN \<or> b = NaN then NaN
      else if (is_inf a \<and> is_inf b) \<or> (is_zero a \<and> is_zero b) then NaN
      else if is_inf a \<or> is_zero b then js_inf (sign_bit a \<noteq> sign_bit b)
      else if is_inf b \<or> is_zero a then js_zero (sign_bit a \<noteq> sign_bit b)
      else Num (finite_value a / finite_value b))"

text \<open>\<^verbatim>\<open>a * b\<close>: not-a-number for a zero times an infinity.\<close>

definition js_mul :: "jsnum \<Rightarrow> jsnum \<Rightarrow> jsnum" where
  "js_mul a b =
     (if a = NaN \<or> b = NaN then NaN
      else if (is_inf a \<and> is_zero b) \<or> (is_zero a \<and> is_inf b) then NaN
      else if is_inf a \<or> is_inf b then js_inf (sign_bit a \<noteq> sign_bit b)
      else if is_zero a \<or> is_zero b then js_zero (sign_bit a \<noteq> sign_bit b)
      else Num (finite_value a * finite_value b))"

text \<open>\<^verbatim>\<open>a < b\<close>, \<^verbatim>\<open>a == b\<close> and \<^verbatim>\<open>a <= b\<close> on numbers: every comparison with
  not-a-number is false, also \<^verbatim>\<open>NaN == NaN\<close>, and the two zeros are equal.\<close>

definition js_less :: "jsnum \<Rightarrow> jsnum \<Rightarrow> bool" where
  "js_less a b =
     (if a = NaN \<or> b = NaN then False
      else if a = PosInf \<or> b = NegInf then False
      else if a = NegInf \<or> b = PosInf then True
      else finite_value a < finite_value b)"

definition js_eq :: "jsnum \<Rightarrow> jsnum \<Rightarrow> bool" where
  "js_eq a b = (a \<noteq> NaN \<and> b \<noteq> NaN \<and> (a = b \<or> (is_zero a \<and> is_zero b)))"

definition js_le :: "jsnum \<Rightarrow> jsnum \<Rightarrow> bool" where
  "js_le a b = (js_less a b \<or> js_eq a b)"

text \<open>\<^verbatim>\<open>Math.max(a, b)\<close> and \<^verbatim>\<open>Math.min(a, b)\<close>: not-a-number if either argument is; of
  the two zeros the positive one is the larger.\<close>

definition Math_max :: "jsnum \<Rightarrow> jsnum \<Rightarrow> jsnum" where
  "Math_max a b =
     (if a = NaN \<or> b = NaN then NaN
      else if js_less a b then b
      else if js_less b a then a
      else if sign_bit a then b else a)"

definition Math_min :: "jsnum \<Rightarrow> jsnum \<Rightarrow> jsnum" where
  "Math_min a b =
     (if a = NaN \<or> b = NaN then NaN
      else if js_less b a then b
      else if js_less a b then a
      else if sign_bit a then a else b)"

text \<open>
  \<^verbatim>\<open>Math.PI\<close> and \<^verbatim>\<open>Math.tan\<close>. The tangent of an infinity is not-a-number. \<open>Math_PI\<close> is
  the real number, so an argument can be an odd multiple of \<open>pi / 2\<close>, where the real
  tangent has no value; no floating-point number is one, and the code returns a finite
  number of very large magnitude next to such a point (about \<open>1.6e16\<close> for a field of
  view of 180 degrees). The model takes the infinity of the side on which the sine is
  positive or negative; what is proved about the tangent below leaves these points out.
\<close>

definition Math_PI :: jsnum where
  "Math_PI = Num pi"

definition Math_tan :: "jsnum \<Rightarrow> jsnum" where
  "Math_tan a =
     (case a of
        Num r \<Rightarrow> (if cos r = 0 then js_inf (sin r < 0) else Num (tan r))
      | NegZero \<Rightarrow> NegZero
      | PosInf \<Rightarrow> NaN
      | NegInf \<Rightarrow> NaN
      | NaN \<Rightarrow> NaN)"

section \<open>The viewport calculator\<close>

text \<open>The \<^verbatim>\<open>Size\<close> of the canvas, in pixels.\<close>

record Size =
  width :: jsnum
  height :: jsnum

text \<open>
  \<^verbatim>\<open>THREE.Vector3\<close> and its \<^verbatim>\<open>distanceTo\<close>, the Euclidean distance (three.js is a
  library the store uses; the coordinates are taken as finite).
\<close>

record Vector3 =
  x :: real
  y :: real
  z :: real

definition distanceTo :: "Vector3 \<Rightarrow> Vector3 \<Rightarrow> jsnum" where
  "distanceTo p q = Num (sqrt ((x p - x q)\<^sup>2 + (y p - y q)\<^sup>2 + (z p - z q)\<^sup>2))"

text \<open>
  A camera, with the fields that \<^verbatim>\<open>getCurrentViewport\<close> reads. \<open>getWorldPosition\<close> is
  the vector that three.js's \<^verbatim>\<open>camera.getWorldPosition(position)\<close> returns. The
  frustum edges and the aspect of the camera, which the resize subscription of the store
  writes, are read by no operation of the store and are left out.
\<close>

text \<open>
  Modelled from the spec: \<^verbatim>\<open>isOrthographicCamera\<close> is imported from
  \<^verbatim>\<open>../core/store\<close>, which is not among the sources; it is the flag that tells an
  orthographic camera from a perspective one ("If camera is orthographic ... Else
  (perspective)").
\<close>

record Camera =
  isOrthographicCamera :: bool
  zoom :: jsnum
  fov :: jsnum
  getWorldPosition :: Vector3

text \<open>What \<^verbatim>\<open>getCurrentViewport\<close> returns.\<close>

record ViewportGeometry =
  width :: jsnum
  height :: jsnum
  factor :: jsnum
  distance :: jsnum
  aspect :: jsnum

text \<open>\<^verbatim>\<open>getCurrentViewport(camera, target, size)\<close>, lines 116 to 132.\<close>

definition getCurrentViewport :: "Camera \<Rightarrow> Vector3 \<Rightarrow> Size \<Rightarrow> ViewportGeometry" where
  "getCurrentViewport camera target size' =
     (let width = Size.width size';
          height = Size.height size';
          aspect = js_div width height;
          distance = distanceTo (getWorldPosition camera) target
      in if isOrthographicCamera camera then
           \<lparr>width = js_div width (zoom camera), height = js_div height (zoom camera),
            factor = Num 1, distance = distance, aspect = aspect\<rparr>
         else
           (let fov = js_div (js_mul (fov camera) Math_PI) (Num 180);
                h = js_mul (js_mul (Num 2) (Math_tan (js_div fov (Num 2)))) distance;
                w = js_mul h (js_div width height)
            in \<lparr>width = w, height = h, factor = js_div width w,
                distance = distance, aspect = aspect\<rparr>))"

section \<open>The render-state store\<close>

subsection \<open>Construction options\<close>

text \<open>\<^verbatim>\<open>PixelRatio\<close>: a number, or a pair \<^verbatim>\<open>[a, b]\<close> (\<^verbatim>\<open>Array.isArray\<close> tells them apart).\<close>

datatype PixelRatio = Scalar jsnum | Pair jsnum jsnum

text \<open>
  The function \<^verbatim>\<open>setPixelRatio\<close> of lines 107 to 111 (the store's operation of the same
  name is \<open>setPixelRatio\<close> below). \<open>devicePixelRatio\<close> is the host's
  \<^verbatim>\<open>window.devicePixelRatio\<close> at the time of the call.
\<close>

definition clampPixelRatio :: "jsnum \<Rightarrow> PixelRatio \<Rightarrow> jsnum" where
  "clampPixelRatio devicePixelRatio pixelRatio =
     (case pixelRatio of
        Pair a b \<Rightarrow> Math_max (Math_min a devicePixelRatio) b
      | Scalar r \<Rightarrow> r)"

text \<open>
  Modelled from the spec: the type of \<^verbatim>\<open>props.performance\<close> is declared in
  \<^verbatim>\<open>../core/store\<close>, which is not among the sources; it is a "partial override of
  {min,max,debounce}", each field given or absent.
\<close>

record PerformanceOverride =
  min_override :: "jsnum option"
  max_override :: "jsnum option"
  debounce_override :: "jsnum option"

text \<open>
  \<^verbatim>\<open>props.camera\<close> is a camera instance (\<^verbatim>\<open>cameraOptions instanceof THREE.Camera\<close>) or a
  bag of options of some type \<open>'o\<close>, which the \<^verbatim>\<open>applyProps\<close> given to
  \<^verbatim>\<open>createMockStore\<close> applies to the default camera.
\<close>

datatype 'o CameraProp = CameraInstance Camera | CameraOptions 'o

text \<open>
  The \<^verbatim>\<open>props\<close> of \<^verbatim>\<open>createMockStore\<close> that reach the state; an absent option is
  \<open>None\<close>. The clock, the raycaster options and the two callbacks are stored and never
  read by the store, and are left out.
\<close>

record 'o StoreProps =
  size :: "Size option"
  vr :: "bool option"
  noninteractive :: "bool option"
  linear :: "bool option"
  orthographic :: "bool option"
  frameloop :: "bool option"
  updateCamera :: "bool option"
  pixelRatio :: "PixelRatio option"
  performance :: "PerformanceOverride option"
  camera :: "'o CameraProp option"

definition with_default :: "'a \<Rightarrow> 'a option \<Rightarrow> 'a" where
  "with_default d v = (case v of None \<Rightarrow> d | Some a \<Rightarrow> a)"

subsection \<open>The state\<close>

text \<open>
  \<^verbatim>\<open>state.performance\<close> without its function \<^verbatim>\<open>regress\<close>, which is \<open>regress\<close> below.
  The fields \<^verbatim>\<open>min\<close> and \<^verbatim>\<open>max\<close> are \<open>min'\<close> and \<open>max'\<close> here.
\<close>

record Performance =
  current :: jsnum
  min' :: jsnum
  max' :: jsnum
  debounce :: jsnum

text \<open>\<^verbatim>\<open>state.viewport\<close>: the geometry and the two pixel ratios.\<close>

record Viewport = ViewportGeometry +
  initialPixelRatio :: jsnum
  pixelRatio :: jsnum

text \<open>\<^verbatim>\<open>{ ...viewport, ...geometry }\<close>.\<close>

definition spread_viewport :: "Viewport \<Rightarrow> ViewportGeometry \<Rightarrow> Viewport" where
  "spread_viewport v g =
     v\<lparr>width := width g, height := height g, factor := factor g,
       distance := distance g, aspect := aspect g\<rparr>"

text \<open>
  An entry of \<^verbatim>\<open>internal.subscribers\<close>. \<open>ref\<close> is the identity of the
  \<^verbatim>\<open>React.MutableRefObject\<close> (the unsubscribe closure compares entries with \<^verbatim>\<open>!==\<close>),
  \<open>priority\<close> an integer.
\<close>

record Subscription =
  ref :: nat
  priority :: int

text \<open>
  \<^verbatim>\<open>state.internal\<close>, with the two fields that the store itself changes. It is one object:
  \<^verbatim>\<open>subscribe\<close> and the closures it returns change it in place and never through
  \<^verbatim>\<open>set\<close>.
\<close>

record InternalState =
  manual :: int
  subscribers :: "Subscription list"

text \<open>
  The state that \<^verbatim>\<open>get()\<close> returns and \<^verbatim>\<open>set\<close> replaces. The field \<^verbatim>\<open>size\<close> is
  \<open>size'\<close> here.
\<close>

record RootState =
  camera :: Camera
  vr :: bool
  noninteractive :: bool
  linear :: bool
  frameloop :: bool
  updateCamera :: bool
  performance :: Performance
  size' :: Size
  viewport :: Viewport

text \<open>A pending timer of the host: its handle and the time it is due, in milliseconds.\<close>

record Timer =
  timer_id :: nat
  due :: nat

text \<open>
  The store together with what its closures hold and with the host's timers:
  \<^item> \<open>state\<close> is the current state of the zustand store;
  \<^item> \<open>internal\<close> is the object \<^verbatim>\<open>state.internal\<close>;
  \<^item> \<open>closure_camera\<close> is the constant \<^verbatim>\<open>camera\<close> of \<^verbatim>\<open>createMockStore\<close> (line 86),
    which the closure \<^verbatim>\<open>setSize\<close> refers to;
  \<^item> \<open>performanceTimeout\<close> is the variable of line 134, \<open>None\<close> for \<^verbatim>\<open>undefined\<close>;
  \<^item> \<open>published\<close> lists, oldest first, the states that zustand has passed to its
    listeners: one for every call of \<^verbatim>\<open>set\<close>. The resize subscription of lines 236 to
    257 is one of these listeners; it writes only fields of the camera that the store
    does not read;
  \<^item> \<open>now\<close> is the host's clock in milliseconds since the store was created,
    \<open>timers\<close> the timers of this store that are pending, in the order they were
    scheduled, and \<open>next_timer_id\<close> the handle that the next \<^verbatim>\<open>setTimeout\<close> returns.
\<close>

record Store =
  state :: RootState
  internal :: InternalState
  closure_camera :: Camera
  performanceTimeout :: "nat option"
  published :: "RootState list"
  now :: nat
  timers :: "Timer list"
  next_timer_id :: nat

text \<open>\<^verbatim>\<open>set(partial)\<close> of zustand: the new state replaces the old one and every listener
  is called with it. \<open>f\<close> is the old state merged with the partial state.\<close>

definition set_state :: "(RootState \<Rightarrow> RootState) \<Rightarrow> Store \<Rightarrow> Store" where
  "set_state f st =
     (let s = f (state st) in st\<lparr>state := s, published := published st @ [s]\<rparr>)"

subsection \<open>The host's timers\<close>

text \<open>
  The delay that the host gives a timer, in whole milliseconds. A delay from 1 to
  \<open>2^31 - 1\<close> is rounded down; this is common to Node and to the browsers. Node, the
  host of the test renderer, takes every other delay (below 1, above \<open>2^31 - 1\<close>, an
  infinity, not-a-number) as 1 millisecond; a browser takes such a delay as 0 or wraps
  it to 32 bits. What is proved below about the time of a timer is about delays from 1
  to \<open>2^31 - 1\<close>.
\<close>

definition timer_delay :: "jsnum \<Rightarrow> nat" where
  "timer_delay d =
     (case d of
        Num r \<Rightarrow> (if 1 \<le> r \<and> r \<le> 2147483647 then nat \<lfloor>r\<rfloor> else 1)
      | NegZero \<Rightarrow> 1 | PosInf \<Rightarrow> 1 | NegInf \<Rightarrow> 1 | NaN \<Rightarrow> 1)"

text \<open>\<^verbatim>\<open>clearTimeout(handle)\<close>: the timer of that handle is no longer pending; nothing
  happens for \<^verbatim>\<open>undefined\<close> or for the handle of a timer that has run.\<close>

definition clearTimeout :: "nat option \<Rightarrow> Store \<Rightarrow> Store" where
  "clearTimeout handle st =
     (case handle of
        None \<Rightarrow> st
      | Some i \<Rightarrow> st\<lparr>timers := filter (\<lambda>t. timer_id t \<noteq> i) (timers st)\<rparr>)"

text \<open>\<^verbatim>\<open>setTimeout(callback, delay)\<close>, for the one callback that the store schedules
  (\<open>recover\<close> below); it returns the handle of the new timer.\<close>

definition setTimeout :: "jsnum \<Rightarrow> Store \<Rightarrow> nat \<times> Store" where
  "setTimeout delay st =
     (next_timer_id st,
      st\<lparr>timers := timers st @ [\<lparr>timer_id = next_timer_id st, due = now st + timer_delay delay\<rparr>],
         next_timer_id := Suc (next_timer_id st)\<rparr>)"

subsection \<open>The performance governor\<close>

text \<open>\<^verbatim>\<open>setPerformanceCurrent(current)\<close>, lines 135 and 136.\<close>

definition setPerformanceCurrent :: "jsnum \<Rightarrow> Store \<Rightarrow> Store" where
  "setPerformanceCurrent c =
     set_state (\<lambda>s. s\<lparr>performance := (performance s)\<lparr>current := c\<rparr>\<rparr>)"

text \<open>The callback of the timer, line 166:
  \<^verbatim>\<open>() => setPerformanceCurrent(get().performance.max)\<close>.\<close>

definition recover :: "Store \<Rightarrow> Store" where
  "recover st = setPerformanceCurrent (max' (performance (state st))) st"

text \<open>\<^verbatim>\<open>performance.regress()\<close>, lines 160 to 169.\<close>

definition regress :: "Store \<Rightarrow> Store" where
  "regress st =
     (let st1 = clearTimeout (performanceTimeout st) st;
          st2 = setPerformanceCurrent (min' (performance (state st1))) st1;
          (handle, st3) = setTimeout (debounce (performance (state st2))) st2
      in st3\<lparr>performanceTimeout := Some handle\<rparr>)"

text \<open>Time passes on the host's clock.\<close>

definition tick :: "nat \<Rightarrow> Store \<Rightarrow> Store" where
  "tick dt st = st\<lparr>now := now st + dt\<rparr>"

text \<open>The host runs the timer of handle \<open>i\<close>, if it is pending and due: the timer leaves
  the queue and its callback runs. Otherwise nothing happens.\<close>

definition fire :: "nat \<Rightarrow> Store \<Rightarrow> Store" where
  "fire i st =
     (if list_ex (\<lambda>t. timer_id t = i \<and> due t \<le> now st) (timers st)
      then recover (st\<lparr>timers := filter (\<lambda>t. timer_id t \<noteq> i) (timers st)\<rparr>)
      else st)"

subsection \<open>Size, camera and pixel ratio\<close>

text \<open>\<^verbatim>\<open>defaultTarget\<close>, line 115: a new \<^verbatim>\<open>THREE.Vector3()\<close> is the origin.\<close>

definition defaultTarget :: Vector3 where
  "defaultTarget = \<lparr>x = 0, y = 0, z = 0\<rparr>"

text \<open>\<^verbatim>\<open>setSize(width, height)\<close>, lines 188 to 191. The \<^verbatim>\<open>camera\<close> it passes to
  \<^verbatim>\<open>getCurrentViewport\<close> is the constant of \<^verbatim>\<open>createMockStore\<close>.\<close>

definition setSize :: "jsnum \<Rightarrow> jsnum \<Rightarrow> Store \<Rightarrow> Store" where
  "setSize w h st =
     (let size = \<lparr>Size.width = w, Size.height = h\<rparr>
      in set_state
           (\<lambda>s. s\<lparr>size' := size,
                  viewport := spread_viewport (viewport s)
                    (getCurrentViewport (closure_camera st) defaultTarget size)\<rparr>) st)"

text \<open>\<^verbatim>\<open>setCamera(camera)\<close>, lines 192 to 194.\<close>

definition setCamera :: "Camera \<Rightarrow> Store \<Rightarrow> Store" where
  "setCamera c = set_state (\<lambda>s. s\<lparr>camera := c\<rparr>)"

text \<open>The store's \<^verbatim>\<open>setPixelRatio(pixelRatio)\<close>, lines 195 to 197.\<close>

definition setPixelRatio :: "jsnum \<Rightarrow> PixelRatio \<Rightarrow> Store \<Rightarrow> Store" where
  "setPixelRatio devicePixelRatio pr =
     set_state
       (\<lambda>s. s\<lparr>viewport := (viewport s)\<lparr>pixelRatio := clampPixelRatio devicePixelRatio pr\<rparr>\<rparr>)"

subsection \<open>The frame subscribers\<close>

text \<open>An array is truthy in JavaScript, also the empty one: the test
  \<^verbatim>\<open>internal?.subscribers\<close> of line 224 succeeds whenever the field holds an array.\<close>

definition truthy_array :: "'a list \<Rightarrow> bool" where
  "truthy_array xs = True"

text \<open>
  \<^verbatim>\<open>internal.subscribe(ref, priority)\<close>, lines 212 to 222, on the object \<^verbatim>\<open>internal\<close>
  (\<open>i\<close> here). \<^verbatim>\<open>Array.prototype.sort\<close> is a stable sort (ECMAScript 2019), and the comparison
  \<^verbatim>\<open>a.priority - b.priority\<close> orders the entries by priority.
\<close>

definition subscribe :: "nat \<Rightarrow> int \<Rightarrow> InternalState \<Rightarrow> InternalState" where
  "subscribe r p i =
     (let i1 = (if p \<noteq> 0 then i\<lparr>manual := manual i + 1\<rparr> else i);
          i2 = i1\<lparr>subscribers := subscribers i1 @ [\<lparr>ref = r, priority = p\<rparr>]\<rparr>
      in i2\<lparr>subscribers := sort_key priority (subscribers i2)\<rparr>)"

text \<open>The closure that \<^verbatim>\<open>subscribe(ref, priority)\<close> returns, lines 223 to 229: it holds
  \<^verbatim>\<open>ref\<close>, \<^verbatim>\<open>priority\<close> and the object \<^verbatim>\<open>internal\<close>.\<close>

definition unsubscribe :: "nat \<Rightarrow> int \<Rightarrow> InternalState \<Rightarrow> InternalState" where
  "unsubscribe r p i =
     (if truthy_array (subscribers i) then
        (let i1 = (if p \<noteq> 0 then i\<lparr>manual := manual i - 1\<rparr> else i)
         in i1\<lparr>subscribers := filter (\<lambda>s. ref s \<noteq> r) (subscribers i1)\<rparr>)
      else i)"

subsection \<open>Creating the store\<close>

text \<open>The default camera of lines 88 to 93, before \<^verbatim>\<open>applyProps\<close>: an orthographic camera
  has no \<^verbatim>\<open>fov\<close>, and a field that is \<^verbatim>\<open>undefined\<close> is not-a-number in arithmetic.\<close>

definition default_camera :: "bool \<Rightarrow> Camera" where
  "default_camera ortho =
     (if ortho
      then \<lparr>isOrthographicCamera = True, zoom = Num 100, fov = NaN,
            getWorldPosition = \<lparr>x = 0, y = 0, z = 5\<rparr>\<rparr>
      else \<lparr>isOrthographicCamera = False, zoom = Num 1, fov = Num 75,
            getWorldPosition = \<lparr>x = 0, y = 0, z = 5\<rparr>\<rparr>)"

text \<open>
  \<^verbatim>\<open>createMockStore(applyProps, props)\<close>. \<open>devicePixelRatio\<close> is the host's
  \<^verbatim>\<open>window.devicePixelRatio\<close> when the store is created.
\<close>

definition createMockStore ::
  "('o \<Rightarrow> Camera \<Rightarrow> Camera) \<Rightarrow> jsnum \<Rightarrow> 'o StoreProps \<Rightarrow> Store" where
  "createMockStore applyProps devicePixelRatio props =
     (let orthographic = with_default False (StoreProps.orthographic props);
          camera =
            (case StoreProps.camera props of
               Some (CameraInstance c) \<Rightarrow> c
             | Some (CameraOptions opts) \<Rightarrow> applyProps opts (default_camera orthographic)
             | None \<Rightarrow> default_camera orthographic);
          initialPixelRatio =
            clampPixelRatio devicePixelRatio (with_default (Scalar (Num 1)) (StoreProps.pixelRatio props));
          override =
            with_default \<lparr>min_override = None, max_override = None, debounce_override = None\<rparr>
              (StoreProps.performance props);
          rootState =
            \<lparr>state =
               \<lparr>camera = camera,
                vr = with_default False (StoreProps.vr props),
                noninteractive = with_default False (StoreProps.noninteractive props),
                linear = with_default False (StoreProps.linear props),
                frameloop = with_default True (StoreProps.frameloop props),
                updateCamera = with_default True (StoreProps.updateCamera props),
                performance =
                  \<lparr>current = Num 1,
                   min' = with_default (Num (1 / 2)) (min_override override),
                   max' = with_default (Num 1) (max_override override),
                   debounce = with_default (Num 200) (debounce_override override)\<rparr>,
                size' = \<lparr>Size.width = Num 0, Size.height = Num 0\<rparr>,
                viewport =
                  \<lparr>width = Num 0, height = Num 0, factor = Num 0, distance = Num 0,
                   aspect = Num 0,
                   initialPixelRatio = initialPixelRatio, pixelRatio = initialPixelRatio\<rparr>\<rparr>,
             internal = \<lparr>manual = 0, subscribers = []\<rparr>,
             closure_camera = camera,
             performanceTimeout = None,
             published = [],
             now = 0,
             timers = [],
             next_timer_id = 0\<rparr>
      in case StoreProps.size props of
           None \<Rightarrow> rootState
         | Some s \<Rightarrow> setSize (Size.width s) (Size.height s) rootState)"

subsection \<open>Runs of the store\<close>

text \<open>
  What can happen to a store: a call of one of its operations (an unsubscribe closure is
  named by the \<^verbatim>\<open>ref\<close> and the \<^verbatim>\<open>priority\<close> it holds; \<open>SetPixelRatio\<close> carries the
  host's \<^verbatim>\<open>window.devicePixelRatio\<close> at the call), time passing, and the host running
  a timer.
\<close>

datatype event =
    Regress
  | Tick nat
  | Fire nat
  | SetSize jsnum jsnum
  | SetCamera Camera
  | SetPixelRatio jsnum PixelRatio
  | Subscribe nat int
  | Unsubscribe nat int

fun step :: "event \<Rightarrow> Store \<Rightarrow> Store" where
  "step Regress st = regress st"
| "step (Tick dt) st = tick dt st"
| "step (Fire i) st = fire i st"
| "step (SetSize w h) st = setSize w h st"
| "step (SetCamera c) st = setCamera c st"
| "step (SetPixelRatio d pr) st = setPixelRatio d pr st"
| "step (Subscribe r p) st = st\<lparr>internal := subscribe r p (internal st)\<rparr>"
| "step (Unsubscribe r p) st = st\<lparr>internal := unsubscribe r p (internal st)\<rparr>"

definition run :: "event list \<Rightarrow> Store \<Rightarrow> Store" where
  "run evs st = fold step evs st"

subsection \<open>Invariants\<close>

text \<open>At most one timer of the store is pending, it is the one whose handle
  \<^verbatim>\<open>performanceTimeout\<close> holds, and its handle is not the next one to be given out.\<close>

definition timers_ok :: "Store \<Rightarrow> bool" where
  "timers_ok st =
     (case timers st of
        [] \<Rightarrow> True
      | [t] \<Rightarrow> performanceTimeout st = Some (timer_id t) \<and> timer_id t < next_timer_id st
      | t # u # ts \<Rightarrow> False)"

text \<open>
  The viewport of a state is the one of its size: the geometry that
  \<^verbatim>\<open>getCurrentViewport\<close> returns for the camera \<open>cam\<close>, the default target and the size
  of the state, or, for the size 0 by 0, the zeros that the store is created with. A store
  is \<open>sizes_ok\<close> when this holds, for the camera the store was created with, of its
  state and of every state it has published.
\<close>

definition viewport_of_size :: "Camera \<Rightarrow> RootState \<Rightarrow> bool" where
  "viewport_of_size cam s =
     (let v = viewport s; g = getCurrentViewport cam defaultTarget (size' s)
      in (size' s = \<lparr>Size.width = Num 0, Size.height = Num 0\<rparr>
          \<and> width v = Num 0 \<and> height v = Num 0 \<and> factor v = Num 0 \<and> distance v = Num 0
          \<and> aspect v = Num 0)
       \<or> (width v = width g \<and> height v = height g \<and> factor v = factor g
          \<and> distance v = distance g \<and> aspect v = aspect g))"

definition sizes_ok :: "Store \<Rightarrow> bool" where
  "sizes_ok st =
     (viewport_of_size (closure_camera st) (state st)
      \<and> list_all (viewport_of_size (closure_camera st)) (published st))"

text \<open>\<^verbatim>\<open>min <= current\<close> and \<^verbatim>\<open>current <= max\<close>.\<close>

definition performance_ok :: "Performance \<Rightarrow> bool" where
  "performance_ok p = (js_le (min' p) (current p) \<and> js_le (current p) (max' p))"

text \<open>The events that the host alone causes: time passing and a timer running.\<close>

fun host_event :: "event \<Rightarrow> bool" where
  "host_event (Tick dt) = True"
| "host_event (Fire i) = True"
| "host_event e = False"

subsection \<open>Registration order\<close>

text \<open>
  The entries that have been subscribed and not removed since, in the order in which
  they were subscribed: a subscription adds its entry at the end, and an unsubscribe
  closure removes the entries of its \<^verbatim>\<open>ref\<close>. It is what the order of the subscribers
  is measured against; the store keeps no such list.
\<close>

fun registration_order_step :: "event \<Rightarrow> Subscription list \<Rightarrow> Subscription list" where
  "registration_order_step (Subscribe r p) xs = xs @ [\<lparr>ref = r, priority = p\<rparr>]"
| "registration_order_step (Unsubscribe r p) xs = filter (\<lambda>s. ref s \<noteq> r) xs"
| "registration_order_step e xs = xs"

definition registration_order :: "event list \<Rightarrow> Subscription list" where
  "registration_order evs = fold registration_order_step evs []"

subsection \<open>Inputs of the examples\<close>

text \<open>\<^verbatim>\<open>props\<close> with no option given, and an \<^verbatim>\<open>applyProps\<close> for options that change
  nothing on the camera.\<close>

definition default_props :: "unit StoreProps" where
  "default_props =
     \<lparr>size = None, vr = None, noninteractive = None, linear = None, orthographic = None,
      frameloop = None, updateCamera = None, pixelRatio = None, performance = None,
      camera = None\<rparr>"

definition keep_camera :: "unit \<Rightarrow> Camera \<Rightarrow> Camera" where
  "keep_camera opts c = c"

text \<open>\<^verbatim>\<open>props\<close> that ask for an orthographic camera, \<^verbatim>\<open>props\<close> whose
  \<^verbatim>\<open>performance\<close> gives \<^verbatim>\<open>debounce: 50 / 3\<close> only (the milliseconds of a frame at 60
  frames a second), and \<^verbatim>\<open>props\<close> whose \<^verbatim>\<open>performance\<close> gives \<^verbatim>\<open>max: 0.8\<close> only.\<close>

definition orthographic_props :: "unit StoreProps" where
  "orthographic_props = default_props\<lparr>orthographic := Some True\<rparr>"

definition fractional_props :: "unit StoreProps" where
  "fractional_props =
     default_props\<lparr>StoreProps.performance :=
       Some \<lparr>min_override = None, max_override = None, debounce_override = Some (Num (50 / 3))\<rparr>\<rparr>"

definition capped_props :: "unit StoreProps" where
  "capped_props =
     default_props\<lparr>StoreProps.performance :=
       Some \<lparr>min_override = None, max_override = Some (Num (4 / 5)), debounce_override = None\<rparr>\<rparr>"

section \<open>What the operations leave alone\<close>

lemma state_set_state: "state (set_state f st) = f (state st)"
  by (simp add: set_state_def Let_def)

lemma published_set_state: "published (set_state f st) = published st @ [f (state st)]"
  by (simp add: set_state_def Let_def)

lemma internal_set_state [simp]: "internal (set_state f st) = internal st"
  by (simp add: set_state_def Let_def)

lemma internal_setSize [simp]: "internal (setSize w h st) = internal st"
  by (simp add: setSize_def Let_def)

lemma internal_setCamera [simp]: "internal (setCamera c st) = internal st"
  by (simp add: setCamera_def)

lemma internal_setPixelRatio [simp]: "internal (setPixelRatio d pr st) = internal st"
  by (simp add: setPixelRatio_def)

lemma internal_regress [simp]: "internal (regress st) = internal st"
  by (simp add: regress_def setPerformanceCurrent_def setTimeout_def clearTimeout_def Let_def
      split: option.splits)

lemma internal_tick [simp]: "internal (tick dt st) = internal st"
  by (simp add: tick_def)

lemma internal_fire [simp]: "internal (fire i st) = internal st"
  by (simp add: fire_def recover_def setPerformanceCurrent_def)

lemma internal_createMockStore [simp]:
  "internal (createMockStore ap d props) = \<lparr>manual = 0, subscribers = []\<rparr>"
  by (simp add: createMockStore_def Let_def split: option.splits)

lemma state_tick [simp]: "state (tick dt st) = state st"
  by (simp add: tick_def)

lemma timers_tick [simp]: "timers (tick dt st) = timers st"
  by (simp add: tick_def)

lemma now_tick [simp]: "now (tick dt st) = now st + dt"
  by (simp add: tick_def)

lemma next_timer_id_tick [simp]: "next_timer_id (tick dt st) = next_timer_id st"
  by (simp add: tick_def)

lemma published_tick [simp]: "published (tick dt st) = published st"
  by (simp add: tick_def)

lemma run_Nil [simp]: "run [] st = st"
  by (simp add: run_def)

lemma run_Cons [simp]: "run (e # evs) st = run evs (step e st)"
  by (simp add: run_def)

lemma run_snoc: "run (evs @ [e]) st = step e (run evs st)"
  by (simp add: run_def)

lemma run_append: "run (evs @ evs') st = run evs' (run evs st)"
  by (simp add: run_def)

section \<open>JavaScript numbers\<close>

lemma sign_bit_js_zero [simp]: "sign_bit (js_zero a) = a"
  by (simp add: sign_bit_def js_zero_def)

lemma is_zero_js_zero [simp]: "is_zero (js_zero a)"
  by (simp add: is_zero_def js_zero_def)

lemma js_zero_not_NaN [simp]: "js_zero a \<noteq> NaN"
  by (simp add: js_zero_def)

lemma is_inf_js_zero [simp]: "\<not> is_inf (js_zero a)"
  by (simp add: is_inf_def js_zero_def)

lemma js_less_Num [simp]: "js_less (Num a) (Num b) = (a < b)"
  by (simp add: js_less_def finite_value_def)

lemma is_zero_Num [simp]: "is_zero (Num a) = (a = 0)"
  by (simp add: is_zero_def)

lemma sign_bit_Num [simp]: "sign_bit (Num a) = (a < 0)"
  by (simp add: sign_bit_def)

lemma js_div_Num:
  "js_div (Num a) (Num b) =
     (if b = 0 then (if a = 0 then NaN else js_inf (a < 0))
      else if a = 0 then js_zero (b < 0) else Num (a / b))"
  by (simp add: js_div_def is_inf_def is_zero_def sign_bit_def finite_value_def)

lemma js_div_Num_nonzero [simp]:
  "a \<noteq> 0 \<Longrightarrow> b \<noteq> 0 \<Longrightarrow> js_div (Num a) (Num b) = Num (a / b)"
  by (simp add: js_div_Num)

lemma js_mul_Num:
  "js_mul (Num a) (Num b) =
     (if a = 0 \<or> b = 0 then js_zero ((a < 0) \<noteq> (b < 0)) else Num (a * b))"
  by (simp add: js_mul_def is_inf_def is_zero_def sign_bit_def finite_value_def)

lemma js_mul_Num_nonzero [simp]:
  "a \<noteq> 0 \<Longrightarrow> b \<noteq> 0 \<Longrightarrow> js_mul (Num a) (Num b) = Num (a * b)"
  by (simp add: js_mul_Num)

lemma js_mul_NaN_right [simp]: "js_mul a NaN = NaN"
  by (simp add: js_mul_def)

lemma js_div_NaN_right [simp]: "js_div a NaN = NaN"
  by (simp add: js_div_def)

lemma js_div_zero_zero [simp]: "js_div (js_zero a) (js_zero b) = NaN"
  by (simp add: js_div_def)

lemma js_div_zero_Num: "h \<noteq> 0 \<Longrightarrow> js_div (js_zero a) (Num h) = js_zero (a \<noteq> (h < 0))"
  by (cases a) (simp_all add: js_div_def is_zero_def is_inf_def sign_bit_def js_zero_def)

lemma js_div_Num_zero: "w \<noteq> 0 \<Longrightarrow> js_div (Num w) (js_zero b) = js_inf ((w < 0) \<noteq> b)"
  by (cases b) (simp_all add: js_div_def is_zero_def is_inf_def sign_bit_def js_zero_def)

lemma Math_max_min_Num: "Math_max (Math_min (Num a) (Num e)) (Num b) = Num (max (min a e) b)"
  by (auto simp add: Math_max_def Math_min_def js_less_def finite_value_def sign_bit_def
      max_def min_def)

lemma timer_delay_whole:
  "1 \<le> n \<Longrightarrow> n \<le> 2147483647 \<Longrightarrow> timer_delay (Num (real n)) = n"
  by (simp add: timer_delay_def)

lemma js_le_not_NaN: "js_le a b \<Longrightarrow> a \<noteq> NaN \<and> b \<noteq> NaN"
  by (auto simp add: js_le_def js_eq_def js_less_def)

lemma js_le_refl: "a \<noteq> NaN \<Longrightarrow> js_le a a"
  by (simp add: js_le_def js_eq_def)

lemma js_le_trans: "js_le a b \<Longrightarrow> js_le b c \<Longrightarrow> js_le a c"
  by (cases a; cases b; cases c)
    (auto simp add: js_le_def js_eq_def js_less_def is_zero_def finite_value_def
      split: if_splits)

section \<open>The viewport calculator\<close>




text \<open>
  C9. The claim is that with a zero width or height, and in the store as it is created,
  the aspect and the factor of the viewport are not-a-number. The store as it is created
  holds the literal zeros of lines 172 to 182: \<^verbatim>\<open>getCurrentViewport\<close> has not run. And
  after \<open>setSize\<close> with 0 and 0 on a store with the default orthographic camera, the
  factor is 1.
\<close>

theorem fresh_viewport_is_zero:
  "aspect (viewport (state (createMockStore keep_camera (Num 1) default_props))) = Num 0
   \<and> factor (viewport (state (createMockStore keep_camera (Num 1) default_props))) = Num 0
   \<and> Num 0 \<noteq> NaN
   \<and> factor (viewport (state (setSize (Num 0) (Num 0)
         (createMockStore keep_camera (Num 1) orthographic_props)))) = Num 1
   \<and> Num 1 \<noteq> NaN"
  by (simp add: createMockStore_def default_props_def orthographic_props_def with_default_def
      default_camera_def setSize_def state_set_state spread_viewport_def getCurrentViewport_def
      js_div_Num Let_def)

text \<open>
  C9, as the code has it. \<open>getCurrentViewport\<close> is a total function: no size makes it
  fail. For a zero width and a zero height, of either sign, the aspect is not-a-number,
  and the factor is not-a-number for a perspective camera and 1 for an orthographic one;
  \<open>setSize\<close> with two zeros stores that aspect and that factor, for the camera the store
  was created with. With a zero width alone, the height finite and not zero, the aspect
  is a zero; with a zero height alone, the width finite and not zero, the aspect is an
  infinity; the sign is the exclusive or of the signs of the width and of the height. A
  store created without a size has the aspect 0 and the factor 0.
\<close>

theorem viewport_zero_size:
  "aspect (getCurrentViewport cam target \<lparr>Size.width = js_zero a, Size.height = js_zero b\<rparr>) = NaN
   \<and> factor (getCurrentViewport cam target \<lparr>Size.width = js_zero a, Size.height = js_zero b\<rparr>)
       = (if isOrthographicCamera cam then Num 1 else NaN)
   \<and> aspect (viewport (state (setSize (js_zero a) (js_zero b) st))) = NaN
   \<and> factor (viewport (state (setSize (js_zero a) (js_zero b) st)))
       = (if isOrthographicCamera (closure_camera st) then Num 1 else NaN)
   \<and> (h \<noteq> 0 \<longrightarrow>
        aspect (getCurrentViewport cam target \<lparr>Size.width = js_zero a, Size.height = Num h\<rparr>)
          = js_zero (a \<noteq> (h < 0)))
   \<and> (w \<noteq> 0 \<longrightarrow>
        aspect (getCurrentViewport cam target \<lparr>Size.width = Num w, Size.height = js_zero b\<rparr>)
          = js_inf ((w < 0) \<noteq> b))
   \<and> (StoreProps.size props = None \<longrightarrow>
        aspect (viewport (state (createMockStore ap d props))) = Num 0
        \<and> factor (viewport (state (createMockStore ap d props))) = Num 0)"
proof -
  have 1: "aspect (getCurrentViewport c target \<lparr>Size.width = js_zero a, Size.height = js_zero b\<rparr>)
      = NaN" for c
    by (simp add: getCurrentViewport_def Let_def)
  have 2: "factor (getCurrentViewport c target \<lparr>Size.width = js_zero a, Size.height = js_zero b\<rparr>)
      = (if isOrthographicCamera c then Num 1 else NaN)" for c
    by (simp add: getCurrentViewport_def Let_def)
  have 3: "aspect (viewport (state (setSize (js_zero a) (js_zero b) st))) = NaN"
    by (simp add: setSize_def state_set_state spread_viewport_def getCurrentViewport_def Let_def)
  have 4: "factor (viewport (state (setSize (js_zero a) (js_zero b) st)))
       = (if isOrthographicCamera (closure_camera st) then Num 1 else NaN)"
    by (simp add: setSize_def state_set_state spread_viewport_def getCurrentViewport_def Let_def)
  have 5: "aspect (getCurrentViewport cam target \<lparr>Size.width = js_zero a, Size.height = Num h\<rparr>)
          = js_zero (a \<noteq> (h < 0))" if "h \<noteq> 0"
    using that by (simp add: getCurrentViewport_def Let_def js_div_zero_Num)
  have 6: "aspect (getCurrentViewport cam target \<lparr>Size.width = Num w, Size.height = js_zero b\<rparr>)
          = js_inf ((w < 0) \<noteq> b)" if "w \<noteq> 0"
    using that by (simp add: getCurrentViewport_def Let_def js_div_Num_zero)
  have 7: "aspect (viewport (state (createMockStore ap d props))) = Num 0
        \<and> factor (viewport (state (createMockStore ap d props))) = Num 0"
    if "StoreProps.size props = None"
    using that by (simp add: createMockStore_def Let_def)
  from 1 2 3 4 5 6 7 show ?thesis by blast
qed

text \<open>The sizes 0 by 0, 0 by 1, 1 by 0 and 1 by the negative zero with the default
  perspective camera, \<open>setSize\<close> with 0 and 0 on a store with the default orthographic
  camera, and that store as it is created.\<close>

theorem viewport_zero_size_witness:
  "(1::real) \<noteq> 0 \<and> StoreProps.size orthographic_props = None
   \<and> aspect (getCurrentViewport (default_camera False) defaultTarget
        \<lparr>Size.width = Num 0, Size.height = Num 0\<rparr>) = NaN
   \<and> factor (getCurrentViewport (default_camera False) defaultTarget
        \<lparr>Size.width = Num 0, Size.height = Num 0\<rparr>) = NaN
   \<and> aspect (getCurrentViewport (default_camera False) defaultTarget
        \<lparr>Size.width = Num 0, Size.height = Num 1\<rparr>) = Num 0
   \<and> aspect (getCurrentViewport (default_camera False) defaultTarget
        \<lparr>Size.width = Num 1, Size.height = Num 0\<rparr>) = PosInf
   \<and> aspect (getCurrentViewport (default_camera False) defaultTarget
        \<lparr>Size.width = Num 1, Size.height = NegZero\<rparr>) = NegInf
   \<and> aspect (viewport (state (setSize (Num 0) (Num 0)
        (createMockStore keep_camera (Num 1) orthographic_props)))) = NaN
   \<and> factor (viewport (state (setSize (Num 0) (Num 0)
        (createMockStore keep_camera (Num 1) orthographic_props)))) = Num 1
   \<and> aspect (viewport (state (createMockStore keep_camera (Num 1) orthographic_props))) = Num 0
   \<and> factor (viewport (state (createMockStore keep_camera (Num 1) orthographic_props))) = Num 0"
proof -
  let ?st = "createMockStore keep_camera (Num 1) orthographic_props"
  have cam: "isOrthographicCamera (closure_camera ?st)"
    by (simp add: createMockStore_def orthographic_props_def default_props_def with_default_def
        default_camera_def Let_def)
  have none: "StoreProps.size orthographic_props = None"
    by (simp add: orthographic_props_def default_props_def)
  have z: "js_zero False = Num 0" "js_zero True = NegZero"
    "js_inf False = PosInf" "js_inf True = NegInf"
    by (simp_all add: js_zero_def js_inf_def)
  have p: "\<not> isOrthographicCamera (default_camera False)"
    by (simp add: default_camera_def)
  note v = viewport_zero_size [where cam = "default_camera False" and target = defaultTarget
      and a = False and h = 1 and w = 1 and props = orthographic_props and ap = keep_camera
      and d = "Num 1" and st = ?st]
  from v [where b = False] v [where b = True] cam none p show ?thesis
    by (simp add: z)
qed

section \<open>Size, camera and pixel ratio\<close>

text \<open>
  \<open>setSize\<close> is one call of \<^verbatim>\<open>set\<close>: the one state it publishes has the new size
  together with the viewport computed from that size, and the aspect stored is the
  quotient of the width and the height. The camera of the computation is
  \<open>closure_camera\<close>.
\<close>

lemma setSize_one_transition:
  "state (setSize w h st)
     = (state st)\<lparr>size' := \<lparr>Size.width = w, Size.height = h\<rparr>,
                  viewport := spread_viewport (viewport (state st))
                    (getCurrentViewport (closure_camera st) defaultTarget
                       \<lparr>Size.width = w, Size.height = h\<rparr>)\<rparr>
   \<and> published (setSize w h st) = published st @ [state (setSize w h st)]
   \<and> aspect (viewport (state (setSize w h st))) = js_div w h"
  by (simp add: setSize_def state_set_state published_set_state Let_def spread_viewport_def
      getCurrentViewport_def)

lemma setSize_aspect_positive:
  "0 < w \<Longrightarrow> 0 < h \<Longrightarrow>
   aspect (viewport (state (setSize (Num w) (Num h) st))) = Num (w / h)
   \<and> js_eq (aspect (viewport (state (setSize (Num w) (Num h) st)))) (js_div (Num w) (Num h))"
  by (simp add: setSize_def state_set_state Let_def spread_viewport_def getCurrentViewport_def
      js_eq_def)

text \<open>\<open>closure_camera\<close> never changes: it is the camera the store was created with,
  whatever \<open>setCamera\<close> has stored since.\<close>

lemma closure_camera_set_state [simp]: "closure_camera (set_state f st) = closure_camera st"
  by (simp add: set_state_def Let_def)

lemma closure_camera_step: "closure_camera (step e st) = closure_camera st"
  by (cases e)
    (simp_all add: regress_def clearTimeout_def setPerformanceCurrent_def setTimeout_def
      tick_def fire_def recover_def setSize_def setCamera_def setPixelRatio_def Let_def
      split: option.splits)

lemma closure_camera_run: "closure_camera (run evs st) = closure_camera st"
  by (induction evs arbitrary: st) (simp_all add: closure_camera_step)

lemma closure_camera_createMockStore:
  "closure_camera (createMockStore ap d props) = camera (state (createMockStore ap d props))"
  by (simp add: createMockStore_def setSize_def state_set_state Let_def
      split: option.splits)

text \<open>
  No listener sees a size with the viewport of another size: every state that a store
  has published has the viewport of its own size, computed with the camera the store was
  created with.
\<close>

lemma viewport_of_size_camera [simp]:
  "viewport_of_size cam (s\<lparr>camera := c\<rparr>) = viewport_of_size cam s"
  by (simp add: viewport_of_size_def Let_def)

lemma viewport_of_size_performance [simp]:
  "viewport_of_size cam (s\<lparr>performance := p\<rparr>) = viewport_of_size cam s"
  by (simp add: viewport_of_size_def Let_def)

lemma viewport_of_size_pixelRatio [simp]:
  "viewport_of_size cam (s\<lparr>viewport := (viewport s)\<lparr>pixelRatio := r\<rparr>\<rparr>) = viewport_of_size cam s"
  by (simp add: viewport_of_size_def Let_def)

lemma sizes_ok_set_state:
  assumes "sizes_ok st"
    and "viewport_of_size (closure_camera st) (state st) \<Longrightarrow>
         viewport_of_size (closure_camera st) (f (state st))"
  shows "sizes_ok (set_state f st)"
  using assms by (simp add: sizes_ok_def set_state_def Let_def)

lemma sizes_ok_setSize: "sizes_ok st \<Longrightarrow> sizes_ok (setSize w h st)"
  unfolding setSize_def Let_def
  by (rule sizes_ok_set_state) (simp_all add: viewport_of_size_def spread_viewport_def Let_def)

lemma sizes_ok_setPerformanceCurrent: "sizes_ok st \<Longrightarrow> sizes_ok (setPerformanceCurrent c st)"
  unfolding setPerformanceCurrent_def
  by (rule sizes_ok_set_state) simp_all

lemma sizes_ok_regress: "sizes_ok st \<Longrightarrow> sizes_ok (regress st)"
proof -
  assume a: "sizes_ok st"
  have "sizes_ok (clearTimeout (performanceTimeout st) st)"
    using a by (simp add: sizes_ok_def clearTimeout_def split: option.splits)
  then have "sizes_ok (setPerformanceCurrent
      (min' (performance (state (clearTimeout (performanceTimeout st) st))))
      (clearTimeout (performanceTimeout st) st))"
    by (rule sizes_ok_setPerformanceCurrent)
  then show ?thesis
    by (simp add: regress_def Let_def setTimeout_def sizes_ok_def)
qed

lemma sizes_ok_fire: "sizes_ok st \<Longrightarrow> sizes_ok (fire i st)"
proof (cases "list_ex (\<lambda>t. timer_id t = i \<and> due t \<le> now st) (timers st)")
  case True
  assume a: "sizes_ok st"
  then have "sizes_ok (st\<lparr>timers := filter (\<lambda>t. timer_id t \<noteq> i) (timers st)\<rparr>)"
    by (simp add: sizes_ok_def)
  then show ?thesis
    using True by (simp add: fire_def recover_def sizes_ok_setPerformanceCurrent)
next
  case False
  assume "sizes_ok st"
  with False show ?thesis by (simp add: fire_def)
qed

lemma sizes_ok_step: "sizes_ok st \<Longrightarrow> sizes_ok (step e st)"
proof (cases e)
  case (SetCamera c)
  assume "sizes_ok st"
  then have "sizes_ok (set_state (\<lambda>s. s\<lparr>camera := c\<rparr>) st)"
    by (rule sizes_ok_set_state) simp
  with SetCamera show ?thesis by (simp add: setCamera_def)
next
  case (SetPixelRatio d pr)
  assume "sizes_ok st"
  then have "sizes_ok (set_state
      (\<lambda>s. s\<lparr>viewport := (viewport s)\<lparr>pixelRatio := clampPixelRatio d pr\<rparr>\<rparr>) st)"
    by (rule sizes_ok_set_state) simp
  with SetPixelRatio show ?thesis by (simp add: setPixelRatio_def)
next
  case (Tick dt)
  assume "sizes_ok st"
  with Tick show ?thesis by (simp add: sizes_ok_def tick_def)
next
  case (Subscribe r p)
  assume "sizes_ok st"
  with Subscribe show ?thesis by (simp add: sizes_ok_def)
next
  case (Unsubscribe r p)
  assume "sizes_ok st"
  with Unsubscribe show ?thesis by (simp add: sizes_ok_def)
qed (simp_all add: sizes_ok_regress sizes_ok_fire sizes_ok_setSize)

lemma sizes_ok_run: "sizes_ok st \<Longrightarrow> sizes_ok (run evs st)"
  by (induction evs arbitrary: st) (simp_all add: sizes_ok_step)

lemma sizes_ok_createMockStore: "sizes_ok (createMockStore ap d props)"
proof (cases "StoreProps.size props")
  case None
  then show ?thesis
    by (simp add: createMockStore_def sizes_ok_def viewport_of_size_def Let_def)
next
  case (Some s)
  have "sizes_ok (setSize (Size.width s) (Size.height s) st)" if "sizes_ok st" for st
    using that by (rule sizes_ok_setSize)
  then show ?thesis
    using Some
    by (simp add: createMockStore_def Let_def)
      (simp add: sizes_ok_def viewport_of_size_def Let_def)
qed

lemma published_sizes_ok:
  "s \<in> set (published (run evs (createMockStore ap d props))) \<Longrightarrow>
   viewport_of_size (closure_camera (createMockStore ap d props)) s"
  using sizes_ok_run [OF sizes_ok_createMockStore, of evs ap d props]
  by (simp add: sizes_ok_def list_all_iff closure_camera_run)

text \<open>
  C1. The claim is that \<open>setSize\<close> computes the viewport from the camera that the store
  holds at the call. On a store created with the default orthographic camera (zoom 100),
  after \<open>setCamera\<close> has stored an orthographic camera of zoom 2, \<open>setSize\<close> with 200
  and 100 stores the width 2 and the height 1 of the first camera; the camera of the
  state gives the width 100 and the height 50.
\<close>

theorem setSize_uses_construction_camera:
  "let cam = \<lparr>isOrthographicCamera = True, zoom = Num 2, fov = NaN,
               getWorldPosition = \<lparr>x = 0, y = 0, z = 5\<rparr>\<rparr>;
       st = setSize (Num 200) (Num 100)
              (setCamera cam (createMockStore keep_camera (Num 1) orthographic_props))
   in camera (state st) = cam
    \<and> size' (state st) = \<lparr>Size.width = Num 200, Size.height = Num 100\<rparr>
    \<and> width (viewport (state st)) = Num 2
    \<and> height (viewport (state st)) = Num 1
    \<and> width (getCurrentViewport (camera (state st)) defaultTarget (size' (state st))) = Num 100
    \<and> height (getCurrentViewport (camera (state st)) defaultTarget (size' (state st))) = Num 50"
  by (simp add: Let_def setSize_def setCamera_def state_set_state createMockStore_def
      orthographic_props_def default_props_def with_default_def default_camera_def
      getCurrentViewport_def spread_viewport_def set_state_def)

text \<open>
  C3. \<open>setPixelRatio\<close> stores \<open>max (min a devicePixelRatio) b\<close> for a pair \<open>[a, b]\<close>
  and the number itself for a number, with \<^verbatim>\<open>Math.max\<close> and \<^verbatim>\<open>Math.min\<close>, which are the
  maximum and the minimum on finite numbers; the pair \<open>[1, 2]\<close> with the device pixel
  ratio 3 gives 2. The new state is the old one with that pixel ratio in its viewport and
  nothing else changed, and the subscribers are as they were.
\<close>

theorem setPixelRatio_spec:
  "pixelRatio (viewport (state (setPixelRatio d pr st)))
     = (case pr of Pair a b \<Rightarrow> Math_max (Math_min a d) b | Scalar r \<Rightarrow> r)
   \<and> state (setPixelRatio d pr st)
     = (state st)\<lparr>viewport := (viewport (state st))
          \<lparr>pixelRatio := pixelRatio (viewport (state (setPixelRatio d pr st)))\<rparr>\<rparr>
   \<and> internal (setPixelRatio d pr st) = internal st
   \<and> Math_max (Math_min (Num a) (Num e)) (Num b) = Num (max (min a e) b)
   \<and> pixelRatio (viewport (state (setPixelRatio (Num 3) (Pair (Num 1) (Num 2)) st))) = Num 2"
proof -
  have "Math_max (Math_min (Num 1) (Num 3)) (Num 2) = Num 2"
    by (simp add: Math_max_min_Num)
  then show ?thesis
    by (simp add: setPixelRatio_def state_set_state clampPixelRatio_def Math_max_min_Num
        split: PixelRatio.splits)
qed

section \<open>The frame subscribers\<close>

lemma subscribers_subscribe:
  "subscribers (subscribe r p i) = sort_key priority (subscribers i @ [\<lparr>ref = r, priority = p\<rparr>])"
  by (simp add: subscribe_def Let_def)

lemma manual_subscribe:
  "manual (subscribe r p i) = (if p \<noteq> 0 then manual i + 1 else manual i)"
  by (simp add: subscribe_def Let_def)

lemma subscribers_unsubscribe:
  "subscribers (unsubscribe r p i) = filter (\<lambda>s. ref s \<noteq> r) (subscribers i)"
  by (simp add: unsubscribe_def truthy_array_def Let_def)

lemma manual_unsubscribe:
  "manual (unsubscribe r p i) = (if p \<noteq> 0 then manual i - 1 else manual i)"
  by (simp add: unsubscribe_def truthy_array_def Let_def)

text \<open>Sorting a list whose front part is already sorted: the stable sort is determined
  by its three properties.\<close>

lemma sort_key_sorted_append:
  "sort_key f (sort_key f xs @ ys) = sort_key f (xs @ ys)"
proof (rule properties_for_sort_key)
  show "mset (sort_key f (xs @ ys)) = mset (sort_key f xs @ ys)" by simp
  show "sorted (map f (sort_key f (xs @ ys)))" by simp
  fix k
  show "filter (\<lambda>x. f k = f x) (sort_key f (xs @ ys)) = filter (\<lambda>x. f k = f x) (sort_key f xs @ ys)"
    using sort_key_stable [of f "f k" "xs @ ys"] sort_key_stable [of f "f k" xs]
    by (simp add: eq_commute [of "f k"])
qed

lemma registration_order_snoc:
  "registration_order (evs @ [e]) = registration_order_step e (registration_order evs)"
  by (simp add: registration_order_def)

lemma registration_order_append:
  "registration_order (evs @ evs') = fold registration_order_step evs' (registration_order evs)"
  by (simp add: registration_order_def)

text \<open>The subscribers are the registration order, sorted by priority with a stable
  sort.\<close>

lemma subscribers_run:
  "subscribers (internal (run evs (createMockStore ap d props)))
     = sort_key priority (registration_order evs)"
proof (induction evs rule: rev_induct)
  case Nil
  show ?case by (simp add: registration_order_def)
next
  case (snoc e evs)
  show ?case
  proof (cases e)
    case (Subscribe r p)
    then show ?thesis
      using snoc
      by (simp add: run_snoc registration_order_snoc subscribers_subscribe sort_key_sorted_append)
  next
    case (Unsubscribe r p)
    then show ?thesis
      using snoc
      by (simp add: run_snoc registration_order_snoc subscribers_unsubscribe filter_sort)
  qed (use snoc in \<open>simp_all add: run_snoc registration_order_snoc\<close>)
qed

text \<open>
  C5. After every sequence of operations on a store, subscriptions and unsubscriptions
  among them, the subscribers are sorted by ascending priority, and the entries of any
  one priority stand in the order in which they were registered. Subscribing with the
  priorities 5, 1 and 3 gives the subscribers in the order 1, 3, 5.
\<close>

theorem subscribers_sorted_stable:
  "sorted (map priority (subscribers (internal (run evs (createMockStore ap d props)))))
   \<and> (\<forall>k. filter (\<lambda>s. priority s = k) (subscribers (internal (run evs (createMockStore ap d props))))
          = filter (\<lambda>s. priority s = k) (registration_order evs))
   \<and> map priority (subscribers (internal
        (run [Subscribe a 5, Subscribe b 1, Subscribe c 3] (createMockStore ap d props))))
      = [1, 3, 5]"
proof -
  have "map priority (subscribers (internal
        (run [Subscribe a 5, Subscribe b 1, Subscribe c 3] (createMockStore ap d props))))
      = [1, 3, 5]"
    by (simp add: subscribers_subscribe)
  then show ?thesis
    by (simp add: subscribers_run sort_key_stable)
qed

text \<open>
  C2. The claim is that a second call of an unsubscribe closure changes nothing. For a
  subscription of priority 1, the first call brings \<open>manual\<close> back to 0 and the second
  call lowers it to -1.
\<close>

theorem unsubscribe_twice_counts_twice:
  "manual (internal (run [Subscribe 1 1, Unsubscribe 1 1]
      (createMockStore keep_camera (Num 1) default_props))) = 0
   \<and> manual (internal (run [Subscribe 1 1, Unsubscribe 1 1, Unsubscribe 1 1]
      (createMockStore keep_camera (Num 1) default_props))) = - 1
   \<and> internal (run [Subscribe 1 1, Unsubscribe 1 1, Unsubscribe 1 1]
        (createMockStore keep_camera (Num 1) default_props))
     \<noteq> internal (run [Subscribe 1 1, Unsubscribe 1 1]
        (createMockStore keep_camera (Num 1) default_props))"
proof -
  let ?st = "createMockStore keep_camera (Num 1) default_props"
  have 1: "manual (internal (run [Subscribe 1 1, Unsubscribe 1 1] ?st)) = 0"
    by (simp add: manual_subscribe manual_unsubscribe)
  have 2: "manual (internal (run [Subscribe 1 1, Unsubscribe 1 1, Unsubscribe 1 1] ?st)) = - 1"
    by (simp add: manual_subscribe manual_unsubscribe)
  from 1 2 have "internal (run [Subscribe 1 1, Unsubscribe 1 1, Unsubscribe 1 1] ?st)
      \<noteq> internal (run [Subscribe 1 1, Unsubscribe 1 1] ?st)"
    by (metis zero_neq_neg_one)
  with 1 2 show ?thesis by simp
qed

text \<open>
  C2, as the code has it. A second call of an unsubscribe closure leaves the subscribers
  as the first call left them. It leaves \<open>manual\<close> as it was when the priority is 0, so
  that the second call then changes nothing at all; when the priority is not 0, every
  call lowers \<open>manual\<close> by one.
\<close>

theorem unsubscribe_twice:
  "subscribers (unsubscribe r p (unsubscribe r p i)) = subscribers (unsubscribe r p i)
   \<and> manual (unsubscribe r p (unsubscribe r p i))
       = manual (unsubscribe r p i) - (if p = 0 then 0 else 1)
   \<and> unsubscribe r 0 (unsubscribe r 0 i) = unsubscribe r 0 i"
  by (simp add: subscribers_unsubscribe manual_unsubscribe unsubscribe_def truthy_array_def Let_def)

text \<open>
  C10. An unsubscribe closure removes by \<^verbatim>\<open>ref\<close>, not by entry: when the same \<^verbatim>\<open>ref\<close> has
  been subscribed twice, with the priorities \<open>p\<close> and \<open>q\<close>, there are two more entries of
  that \<^verbatim>\<open>ref\<close> than before, and one call of either closure leaves no entry of that
  \<^verbatim>\<open>ref\<close> and leaves the entries of every other \<^verbatim>\<open>ref\<close> as they were, in their order: in
  any state, the subscribers after the call are those of another \<^verbatim>\<open>ref\<close>. On a
  new store, after the subscriptions of the \<^verbatim>\<open>ref\<close> 7 with priority 1, of the \<^verbatim>\<open>ref\<close> 8
  with priority 3 and of the \<^verbatim>\<open>ref\<close> 7 with priority 2, one call of either closure of the
  \<^verbatim>\<open>ref\<close> 7 leaves the entry of the \<^verbatim>\<open>ref\<close> 8 alone.
\<close>

theorem unsubscribe_removes_by_ref:
  "length (filter (\<lambda>s. ref s = r) (subscribers (subscribe r q (subscribe r p i))))
     = length (filter (\<lambda>s. ref s = r) (subscribers i)) + 2
   \<and> filter (\<lambda>s. ref s = r) (subscribers (unsubscribe r p (subscribe r q (subscribe r p i)))) = []
   \<and> filter (\<lambda>s. ref s = r) (subscribers (unsubscribe r q (subscribe r q (subscribe r p i)))) = []
   \<and> filter (\<lambda>s. ref s \<noteq> r) (subscribers (unsubscribe r p (subscribe r q (subscribe r p i))))
     = filter (\<lambda>s. ref s \<noteq> r) (subscribers (subscribe r q (subscribe r p i)))
   \<and> filter (\<lambda>s. ref s \<noteq> r) (subscribers (unsubscribe r q (subscribe r q (subscribe r p i))))
     = filter (\<lambda>s. ref s \<noteq> r) (subscribers (subscribe r q (subscribe r p i)))
   \<and> subscribers (unsubscribe r p i) = filter (\<lambda>s. ref s \<noteq> r) (subscribers i)
   \<and> subscribers (internal (run [Subscribe 7 1, Subscribe 8 3, Subscribe 7 2]
        (createMockStore keep_camera (Num 1) default_props)))
      = [\<lparr>ref = 7, priority = 1\<rparr>, \<lparr>ref = 7, priority = 2\<rparr>, \<lparr>ref = 8, priority = 3\<rparr>]
   \<and> subscribers (internal (run [Subscribe 7 1, Subscribe 8 3, Subscribe 7 2, Unsubscribe 7 1]
        (createMockStore keep_camera (Num 1) default_props)))
      = [\<lparr>ref = 8, priority = 3\<rparr>]
   \<and> subscribers (internal (run [Subscribe 7 1, Subscribe 8 3, Subscribe 7 2, Unsubscribe 7 2]
        (createMockStore keep_camera (Num 1) default_props)))
      = [\<lparr>ref = 8, priority = 3\<rparr>]"
  by (simp add: subscribers_subscribe subscribers_unsubscribe filter_sort)

text \<open>
  C6. The claim is that \<open>manual\<close> counts the subscribers of nonzero priority that are
  left, also when a \<^verbatim>\<open>ref\<close> was subscribed more than once. After two subscriptions of
  one \<^verbatim>\<open>ref\<close> with the priorities 1 and 2 and one call of the first closure, \<open>manual\<close>
  is 1 and no subscriber is left.
\<close>

theorem manual_overcounts_shared_ref:
  "manual (internal (run [Subscribe 7 1, Subscribe 7 2, Unsubscribe 7 1]
      (createMockStore keep_camera (Num 1) default_props))) = 1
   \<and> length (filter (\<lambda>s. priority s \<noteq> 0) (subscribers (internal
        (run [Subscribe 7 1, Subscribe 7 2, Unsubscribe 7 1]
          (createMockStore keep_camera (Num 1) default_props))))) = 0"
  by (simp add: manual_subscribe manual_unsubscribe subscribers_subscribe subscribers_unsubscribe)

lemma manual_run_subscribe:
  "manual (internal (run (map (\<lambda>s. Subscribe (ref s) (priority s)) (subs :: Subscription list)) st))
     = manual (internal st) + int (length (filter (\<lambda>s. priority s \<noteq> 0) subs))"
  by (induction subs arbitrary: st) (simp_all add: manual_subscribe)

lemma manual_run_unsubscribe:
  "manual (internal (run (map (\<lambda>s. Unsubscribe (ref s) (priority s)) (hs :: Subscription list)) st))
     = manual (internal st) - int (length (filter (\<lambda>s. priority s \<noteq> 0) hs))"
  by (induction hs arbitrary: st) (simp_all add: manual_unsubscribe)

lemma fold_registration_subscribe:
  "fold registration_order_step (map (\<lambda>s. Subscribe (ref s) (priority s)) subs) xs = xs @ subs"
  by (induction subs arbitrary: xs) simp_all

lemma fold_registration_unsubscribe:
  "fold registration_order_step (map (\<lambda>s. Unsubscribe (ref s) (priority s)) hs) xs
     = filter (\<lambda>s. ref s \<notin> ref ` set hs) xs"
  by (induction hs arbitrary: xs) (auto intro: filter_cong)

text \<open>
  C6, as the code has it. On a new store, after the subscriptions \<open>subs\<close>, all of
  nonzero priority and of pairwise distinct \<^verbatim>\<open>ref\<close>s, and one call of the closure of
  each entry of \<open>hs\<close>, which are distinct entries of \<open>subs\<close>, \<open>manual\<close> is the number of
  subscribers of nonzero priority that are left, which is the number of subscriptions
  less the number of calls.
\<close>

theorem manual_counts_subscribers:
  fixes subs hs :: "Subscription list"
  assumes nonzero: "\<forall>s\<in>set subs. priority s \<noteq> 0"
      and refs: "distinct (map ref subs)"
      and handles: "set hs \<subseteq> set subs"
      and once: "distinct hs"
  shows "let st = run (map (\<lambda>s. Subscribe (ref s) (priority s)) subs
                       @ map (\<lambda>s. Unsubscribe (ref s) (priority s)) hs)
                    (createMockStore ap d props)
         in manual (internal st)
              = int (length (filter (\<lambda>s. priority s \<noteq> 0) (subscribers (internal st))))
          \<and> manual (internal st) = int (length subs) - int (length hs)"
proof -
  let ?evs = "map (\<lambda>s. Subscribe (ref s) (priority s)) subs
              @ map (\<lambda>s. Unsubscribe (ref s) (priority s)) hs"
  let ?st = "run ?evs (createMockStore ap d props)"
  have inj: "inj_on ref (set subs)"
    using refs by (simp add: distinct_map)
  have dsubs: "distinct subs"
    using refs by (simp add: distinct_map)
  have nz_subs: "filter (\<lambda>s. priority s \<noteq> 0) subs = subs"
    using nonzero by simp
  have nz_hs: "filter (\<lambda>s. priority s \<noteq> 0) hs = hs"
    using nonzero handles by (auto intro: filter_True)
  have m: "manual (internal ?st) = int (length subs) - int (length hs)"
    by (simp add: run_append manual_run_unsubscribe manual_run_subscribe nz_subs nz_hs)
  have "registration_order ?evs = filter (\<lambda>s. ref s \<notin> ref ` set hs) subs"
    by (simp add: registration_order_append fold_registration_unsubscribe
        fold_registration_subscribe [of subs "[]", simplified] registration_order_def)
  also have "\<dots> = filter (\<lambda>s. s \<notin> set hs) subs"
    using inj handles by (auto intro!: filter_cong dest: inj_onD)
  finally have ro: "registration_order ?evs = filter (\<lambda>s. s \<notin> set hs) subs" .
  have sub: "subscribers (internal ?st) = sort_key priority (filter (\<lambda>s. s \<notin> set hs) subs)"
    by (simp only: subscribers_run ro)
  have "filter (\<lambda>s. priority s \<noteq> 0) (subscribers (internal ?st)) = subscribers (internal ?st)"
    using nonzero by (simp add: sub)
  then have "length (filter (\<lambda>s. priority s \<noteq> 0) (subscribers (internal ?st)))
      = length (filter (\<lambda>s. s \<notin> set hs) subs)"
    by (simp add: sub)
  also have "\<dots> = card (set subs - set hs)"
  proof -
    have "{x. x \<notin> set hs} \<inter> set subs = set subs - set hs" by blast
    with dsubs show ?thesis by (simp add: distinct_length_filter)
  qed
  also have "\<dots> = length subs - length hs"
    using dsubs once handles
    by (simp add: card_Diff_subset distinct_card)
  finally have c: "length (filter (\<lambda>s. priority s \<noteq> 0) (subscribers (internal ?st)))
      = length subs - length hs" .
  have "length hs \<le> length subs"
    using once handles dsubs by (metis card_mono distinct_card List.finite_set)
  with m c show ?thesis
    by (simp add: Let_def)
qed

text \<open>Three subscriptions of the \<^verbatim>\<open>ref\<close>s 1, 2 and 3 and one call of the closure of the
  second: \<open>manual\<close> is 2 and two subscribers of nonzero priority are left.\<close>

theorem manual_counts_subscribers_witness:
  "manual (internal (run [Subscribe 1 1, Subscribe 2 2, Subscribe 3 5, Unsubscribe 2 2]
      (createMockStore keep_camera (Num 1) default_props))) = 2
   \<and> length (filter (\<lambda>s. priority s \<noteq> 0) (subscribers (internal
        (run [Subscribe 1 1, Subscribe 2 2, Subscribe 3 5, Unsubscribe 2 2]
          (createMockStore keep_camera (Num 1) default_props))))) = 2"
  using manual_counts_subscribers
    [of "[\<lparr>ref = 1, priority = 1\<rparr>, \<lparr>ref = 2, priority = 2\<rparr>, \<lparr>ref = 3, priority = 5\<rparr>]"
        "[\<lparr>ref = 2, priority = 2\<rparr>]" keep_camera "Num 1" default_props]
  by (simp add: Let_def)

section \<open>The performance governor\<close>

lemma timers_ok_createMockStore: "timers_ok (createMockStore ap d props)"
  by (simp add: timers_ok_def createMockStore_def setSize_def set_state_def Let_def
      split: option.splits)

lemma timers_regress:
  "timers_ok st \<Longrightarrow>
   timers (regress st)
     = [\<lparr>timer_id = next_timer_id st,
         due = now st + timer_delay (debounce (performance (state st)))\<rparr>]"
  by (auto simp add: timers_ok_def regress_def clearTimeout_def setPerformanceCurrent_def
      set_state_def setTimeout_def Let_def split: option.splits list.splits)

lemma performanceTimeout_regress:
  "performanceTimeout (regress st) = Some (next_timer_id st)"
  by (simp add: regress_def clearTimeout_def setPerformanceCurrent_def
      set_state_def setTimeout_def Let_def split: option.splits)

lemma performance_regress:
  "performance (state (regress st))
     = (performance (state st))\<lparr>current := min' (performance (state st))\<rparr>"
  by (simp add: regress_def clearTimeout_def setPerformanceCurrent_def
      set_state_def setTimeout_def Let_def split: option.splits)

lemma now_regress: "now (regress st) = now st"
  by (simp add: regress_def clearTimeout_def setPerformanceCurrent_def
      set_state_def setTimeout_def Let_def split: option.splits)

lemma next_timer_id_regress: "next_timer_id (regress st) = Suc (next_timer_id st)"
  by (simp add: regress_def clearTimeout_def setPerformanceCurrent_def
      set_state_def setTimeout_def Let_def split: option.splits)

lemma timers_ok_regress: "timers_ok st \<Longrightarrow> timers_ok (regress st)"
  by (simp add: timers_ok_def [of "regress st"] timers_regress performanceTimeout_regress
      next_timer_id_regress)

lemma timers_ok_fire: "timers_ok st \<Longrightarrow> timers_ok (fire i st)"
  by (auto simp add: timers_ok_def fire_def recover_def setPerformanceCurrent_def set_state_def
      Let_def split: list.splits if_splits)

lemma timers_ok_step: "timers_ok st \<Longrightarrow> timers_ok (step e st)"
proof (cases e)
  case Regress
  assume "timers_ok st"
  with Regress show ?thesis by (simp add: timers_ok_regress)
next
  case (Fire i)
  assume "timers_ok st"
  with Fire show ?thesis by (simp add: timers_ok_fire)
qed (simp_all add: timers_ok_def tick_def setSize_def setCamera_def setPixelRatio_def
      set_state_def Let_def split: list.splits)

lemma timers_ok_tick: "timers_ok st \<Longrightarrow> timers_ok (tick dt st)"
  using timers_ok_step [of st "Tick dt"] by simp

lemma timers_ok_run: "timers_ok st \<Longrightarrow> timers_ok (run evs st)"
  by (induction evs arbitrary: st) (simp_all add: timers_ok_step)

lemma timers_ok_length: "timers_ok st \<Longrightarrow> length (timers st) \<le> 1"
  by (simp add: timers_ok_def split: list.splits)

lemma timers_ok_fresh: "timers_ok st \<Longrightarrow> \<forall>t\<in>set (timers st). timer_id t < next_timer_id st"
  by (auto simp add: timers_ok_def split: list.splits)

text \<open>A timer does not run before it is due, and the one pending timer, once due, runs
  its callback: one more state is published, with \<open>current\<close> at \<open>max'\<close>.\<close>

lemma fire_not_due:
  "\<forall>t\<in>set (timers st). now st < due t \<Longrightarrow> fire i st = st"
  by (auto simp add: fire_def list_ex_iff)

lemma fire_due:
  "timers st = [t] \<Longrightarrow> due t \<le> now st \<Longrightarrow>
   fire (timer_id t) st
     = st\<lparr>timers := [],
          state := (state st)\<lparr>performance := (performance (state st))\<lparr>current := max' (performance (state st))\<rparr>\<rparr>,
          published := published st @ [(state st)\<lparr>performance := (performance (state st))\<lparr>current := max' (performance (state st))\<rparr>\<rparr>]\<rparr>"
  by (simp add: fire_def recover_def setPerformanceCurrent_def set_state_def Let_def)

text \<open>While only the host acts, every state published takes a pending timer away.\<close>

lemma published_step_host:
  "host_event e \<Longrightarrow>
   length (published (step e st)) + length (timers (step e st))
     \<le> length (published st) + length (timers st)"
proof (cases e)
  case (Fire i)
  show ?thesis
  proof (cases "list_ex (\<lambda>t. timer_id t = i \<and> due t \<le> now st) (timers st)")
    case True
    then obtain t where "t \<in> set (timers st)" and "timer_id t = i"
      by (auto simp add: list_ex_iff)
    then have "length (filter (\<lambda>t. timer_id t \<noteq> i) (timers st)) < length (timers st)"
      by (auto intro!: length_filter_less)
    with True Fire show ?thesis
      by (simp add: fire_def recover_def setPerformanceCurrent_def set_state_def Let_def)
  next
    case False
    with Fire show ?thesis by (simp add: fire_def)
  qed
qed (simp_all add: tick_def)

lemma published_run_host:
  "\<forall>e\<in>set evs. host_event e \<Longrightarrow>
   length (published (run evs st)) + length (timers (run evs st))
     \<le> length (published st) + length (timers st)"
proof (induction evs arbitrary: st)
  case Nil
  show ?case by simp
next
  case (Cons e evs)
  have "length (published (run evs (step e st))) + length (timers (run evs (step e st)))
          \<le> length (published (step e st)) + length (timers (step e st))"
    using Cons by simp
  also have "\<dots> \<le> length (published st) + length (timers st)"
    using Cons.prems by (simp add: published_step_host)
  finally show ?case by simp
qed

text \<open>
  C7. The claim is that the recovery is scheduled \<^verbatim>\<open>performance.debounce\<close> milliseconds
  after the call, and that two calls within that time give one recovery. The host rounds
  the delay of a timer down to whole milliseconds: with a \<open>debounce\<close> of \<open>50 / 3\<close>
  milliseconds the timer is due after 16, and a second call of \<open>regress\<close> 16
  milliseconds after the first, which is less than \<open>50 / 3\<close>, finds that the first timer
  has run: the states published have \<open>current\<close> at \<open>min'\<close>, \<open>max'\<close>, \<open>min'\<close> and
  \<open>max'\<close>, two recoveries.
\<close>

theorem regress_fractional_debounce:
  "debounce (performance (state (createMockStore keep_camera (Num 1) fractional_props)))
     = Num (50 / 3)
   \<and> timers (regress (createMockStore keep_camera (Num 1) fractional_props))
     = [\<lparr>timer_id = 0, due = 16\<rparr>]
   \<and> (16 :: real) < 50 / 3
   \<and> map (\<lambda>s. current (performance s))
        (published (run [Regress, Tick 16, Fire 0, Regress, Tick 16, Fire 1]
          (createMockStore keep_camera (Num 1) fractional_props)))
     = [Num (1 / 2), Num 1, Num (1 / 2), Num 1]"
proof -
  have fl: "\<lfloor>50 / 3 :: real\<rfloor> = 16"
    by linarith
  have td: "timer_delay (Num (50 / 3)) = 16"
    by (simp add: timer_delay_def fl)
  show ?thesis
    by (simp add: createMockStore_def fractional_props_def default_props_def with_default_def
        regress_def clearTimeout_def setPerformanceCurrent_def set_state_def setTimeout_def
        tick_def fire_def recover_def td Let_def)
qed

text \<open>
  C7, as the code has it. Let \<open>st\<close> be a store after any sequence of events, whose
  \<open>debounce\<close> is a whole number \<open>delay\<close> of milliseconds from 1 to \<open>2^31 - 1\<close>, as the
  default 200 is. At most one timer is pending in \<open>st\<close>. A call of \<open>regress\<close> sets
  \<open>current\<close> to \<open>min'\<close> and leaves exactly one timer pending, the new one, due \<open>delay\<close>
  milliseconds after the call: a timer that was pending before is not pending any more.
  No timer runs before \<open>delay\<close> milliseconds have passed; when the new timer runs, it
  publishes one state, with \<open>current\<close> at \<open>max'\<close>, and no timer is left. After a second
  call of \<open>regress\<close>, \<open>dt < delay\<close> milliseconds after the first, the one pending timer is
  the one of the second call, due \<open>delay\<close> milliseconds after the second call; whatever
  the host does from there, at most one more state is published, and when that timer runs
  it is the state with \<open>current\<close> at \<open>max'\<close>.
\<close>

theorem regress_debounced:
  assumes "st = run evs (createMockStore ap d props)"
    and "debounce (performance (state st)) = Num (real delay)"
    and "1 \<le> delay" and "delay \<le> 2147483647"
  shows "length (timers st) \<le> 1
    \<and> current (performance (state (regress st))) = min' (performance (state st))
    \<and> timers (regress st) = [\<lparr>timer_id = next_timer_id st, due = now st + delay\<rparr>]
    \<and> (\<forall>t\<in>set (timers st). t \<notin> set (timers (regress st)))
    \<and> performanceTimeout (regress st) = Some (next_timer_id st)
    \<and> (\<forall>dt i. dt < delay \<longrightarrow> fire i (tick dt (regress st)) = tick dt (regress st))
    \<and> (let st' = fire (next_timer_id st) (tick delay (regress st))
       in current (performance (state st')) = max' (performance (state st))
        \<and> timers st' = []
        \<and> published st' = published (regress st) @ [state st'])
    \<and> (\<forall>dt < delay.
         let st2 = regress (tick dt (regress st))
         in timers st2 = [\<lparr>timer_id = Suc (next_timer_id st), due = now st + dt + delay\<rparr>]
          \<and> (\<forall>evs'. (\<forall>e\<in>set evs'. host_event e) \<longrightarrow>
                length (published (run evs' st2)) \<le> length (published st2) + 1)
          \<and> (let st3 = fire (Suc (next_timer_id st)) (tick delay st2)
             in published st3 = published st2 @ [state st3]
              \<and> current (performance (state st3)) = max' (performance (state st))
              \<and> timers st3 = []))"
proof -
  have ok: "timers_ok st"
    using assms(1) by (simp add: timers_ok_run timers_ok_createMockStore)
  have del: "delay = timer_delay (debounce (performance (state st)))"
    using assms(2-4) by (simp add: timer_delay_whole)
  have t1: "timers (regress st) = [\<lparr>timer_id = next_timer_id st, due = now st + delay\<rparr>]"
    using ok del by (simp add: timers_regress)
  have p1: "performance (state (regress st))
      = (performance (state st))\<lparr>current := min' (performance (state st))\<rparr>"
    by (rule performance_regress)
  have a: "length (timers st) \<le> 1"
    using ok by (rule timers_ok_length)
  have b: "current (performance (state (regress st))) = min' (performance (state st))"
    by (simp add: p1)
  have c: "performanceTimeout (regress st) = Some (next_timer_id st)"
    by (rule performanceTimeout_regress)
  have n: "\<forall>t\<in>set (timers st). t \<notin> set (timers (regress st))"
    using timers_ok_fresh [OF ok] by (auto simp add: t1)
  have e: "\<forall>dt i. dt < delay \<longrightarrow> fire i (tick dt (regress st)) = tick dt (regress st)"
    by (simp add: fire_not_due t1 now_regress)
  have f: "let st' = fire (next_timer_id st) (tick delay (regress st))
       in current (performance (state st')) = max' (performance (state st))
        \<and> timers st' = []
        \<and> published st' = published (regress st) @ [state st']"
    using fire_due [of "tick delay (regress st)"
        "\<lparr>timer_id = next_timer_id st, due = now st + delay\<rparr>"]
    by (simp add: t1 now_regress p1 Let_def)
  have g: "\<forall>dt < delay.
         let st2 = regress (tick dt (regress st))
         in timers st2 = [\<lparr>timer_id = Suc (next_timer_id st), due = now st + dt + delay\<rparr>]
          \<and> (\<forall>evs'. (\<forall>e\<in>set evs'. host_event e) \<longrightarrow>
                length (published (run evs' st2)) \<le> length (published st2) + 1)
          \<and> (let st3 = fire (Suc (next_timer_id st)) (tick delay st2)
             in published st3 = published st2 @ [state st3]
              \<and> current (performance (state st3)) = max' (performance (state st))
              \<and> timers st3 = [])"
  proof (intro allI impI)
    fix dt assume "dt < delay"
    define st1 where "st1 = tick dt (regress st)"
    define st2 where "st2 = regress st1"
    have ok1: "timers_ok st1"
      unfolding st1_def using ok by (simp add: timers_ok_tick timers_ok_regress)
    have perf1: "performance (state st1)
        = (performance (state st))\<lparr>current := min' (performance (state st))\<rparr>"
      by (simp add: st1_def p1)
    have t2: "timers st2 = [\<lparr>timer_id = Suc (next_timer_id st), due = now st + dt + delay\<rparr>]"
      unfolding st2_def using ok1 del
      by (simp add: timers_regress perf1) (simp add: st1_def next_timer_id_regress now_regress)
    have perf2: "performance (state st2)
        = (performance (state st))\<lparr>current := min' (performance (state st))\<rparr>"
      by (simp add: st2_def performance_regress perf1)
    have now2: "now st2 = now st + dt"
      by (simp add: st2_def st1_def now_regress)
    have h: "\<forall>evs'. (\<forall>e\<in>set evs'. host_event e) \<longrightarrow>
                length (published (run evs' st2)) \<le> length (published st2) + 1"
    proof (intro allI impI)
      fix evs' assume "\<forall>e\<in>set evs'. host_event e"
      from published_run_host [OF this, of st2]
      show "length (published (run evs' st2)) \<le> length (published st2) + 1"
        by (simp add: t2)
    qed
    have k: "let st3 = fire (Suc (next_timer_id st)) (tick delay st2)
             in published st3 = published st2 @ [state st3]
              \<and> current (performance (state st3)) = max' (performance (state st))
              \<and> timers st3 = []"
      using fire_due [of "tick delay st2"
          "\<lparr>timer_id = Suc (next_timer_id st), due = now st + dt + delay\<rparr>"]
      by (simp add: t2 now2 perf2 Let_def)
    show "let st2 = regress (tick dt (regress st))
         in timers st2 = [\<lparr>timer_id = Suc (next_timer_id st), due = now st + dt + delay\<rparr>]
          \<and> (\<forall>evs'. (\<forall>e\<in>set evs'. host_event e) \<longrightarrow>
                length (published (run evs' st2)) \<le> length (published st2) + 1)
          \<and> (let st3 = fire (Suc (next_timer_id st)) (tick delay st2)
             in published st3 = published st2 @ [state st3]
              \<and> current (performance (state st3)) = max' (performance (state st))
              \<and> timers st3 = [])"
      using t2 h k unfolding st2_def st1_def Let_def by blast
  qed
  from a b t1 n c e f g show ?thesis by blast
qed

text \<open>On a new store with the default \<open>debounce\<close> of 200: \<open>regress\<close>, 100 milliseconds,
  \<open>regress\<close> again. The one pending timer is the second, due at 300; it cannot run at
  250, and when it runs at 300 \<open>current\<close> is 1 again.\<close>

theorem regress_debounced_witness:
  "timers (regress (createMockStore keep_camera (Num 1) default_props))
     = [\<lparr>timer_id = 0, due = 200\<rparr>]
   \<and> current (performance (state (regress (createMockStore keep_camera (Num 1) default_props))))
     = Num (1 / 2)
   \<and> timers (regress (tick 100 (regress (createMockStore keep_camera (Num 1) default_props))))
     = [\<lparr>timer_id = 1, due = 300\<rparr>]
   \<and> current (performance (state (fire 1 (tick 200
        (regress (tick 100 (regress (createMockStore keep_camera (Num 1) default_props))))))))
     = Num 1
   \<and> timers (fire 1 (tick 200
        (regress (tick 100 (regress (createMockStore keep_camera (Num 1) default_props))))))
     = []"
proof -
  let ?st = "createMockStore keep_camera (Num 1) default_props"
  have h1: "?st = run [] (createMockStore keep_camera (Num 1) default_props)"
    by simp
  have h2: "debounce (performance (state ?st)) = Num (real 200)"
    by (simp add: createMockStore_def default_props_def with_default_def Let_def)
  have h3: "(1::nat) \<le> 200" "(200::nat) \<le> 2147483647"
    by simp_all
  have vals: "next_timer_id ?st = 0" "now ?st = 0"
    "min' (performance (state ?st)) = Num (1 / 2)" "max' (performance (state ?st)) = Num 1"
    by (simp_all add: createMockStore_def default_props_def with_default_def Let_def)
  note r = regress_debounced [OF h1 h2 h3]
  from r have two: "\<forall>dt<200.
         let st2 = regress (tick dt (regress ?st))
         in timers st2 = [\<lparr>timer_id = Suc (next_timer_id ?st), due = now ?st + dt + 200\<rparr>]
          \<and> (\<forall>evs'. (\<forall>e\<in>set evs'. host_event e) \<longrightarrow>
                length (published (run evs' st2)) \<le> length (published st2) + 1)
          \<and> (let st3 = fire (Suc (next_timer_id ?st)) (tick 200 st2)
             in published st3 = published st2 @ [state st3]
              \<and> current (performance (state st3)) = max' (performance (state ?st))
              \<and> timers st3 = [])"
    by blast
  have "(100::nat) < 200" by simp
  with two have
    "let st2 = regress (tick 100 (regress ?st))
         in timers st2 = [\<lparr>timer_id = Suc (next_timer_id ?st), due = now ?st + 100 + 200\<rparr>]
          \<and> (\<forall>evs'. (\<forall>e\<in>set evs'. host_event e) \<longrightarrow>
                length (published (run evs' st2)) \<le> length (published st2) + 1)
          \<and> (let st3 = fire (Suc (next_timer_id ?st)) (tick 200 st2)
             in published st3 = published st2 @ [state st3]
              \<and> current (performance (state st3)) = max' (performance (state ?st))
              \<and> timers st3 = [])"
    by blast
  then have second:
    "timers (regress (tick 100 (regress ?st))) = [\<lparr>timer_id = 1, due = 300\<rparr>]
     \<and> current (performance (state (fire 1 (tick 200 (regress (tick 100 (regress ?st))))))) = Num 1
     \<and> timers (fire 1 (tick 200 (regress (tick 100 (regress ?st))))) = []"
    by (simp add: Let_def vals)
  from r have first:
    "timers (regress ?st) = [\<lparr>timer_id = 0, due = 200\<rparr>]
     \<and> current (performance (state (regress ?st))) = Num (1 / 2)"
    by (simp add: vals)
  from first second show ?thesis by simp
qed

text \<open>
  C8. The claim is that \<open>min' \<le> current \<le> max'\<close> holds in every state, also for a
  store created with an override of \<open>min'\<close>, \<open>max'\<close> or \<open>debounce\<close>. A store created with
  \<^verbatim>\<open>performance: { max: 0.8 }\<close> has \<open>current\<close> at 1 above its \<open>max'\<close>.
\<close>

theorem performance_override_breaks_bounds:
  "current (performance (state (createMockStore keep_camera (Num 1) capped_props))) = Num 1
   \<and> max' (performance (state (createMockStore keep_camera (Num 1) capped_props))) = Num (4 / 5)
   \<and> \<not> js_le (current (performance (state (createMockStore keep_camera (Num 1) capped_props))))
             (max' (performance (state (createMockStore keep_camera (Num 1) capped_props))))"
  by (simp add: createMockStore_def capped_props_def default_props_def with_default_def Let_def
      js_le_def js_eq_def)

lemma performance_fire:
  "performance (state (fire i st)) = performance (state st)
   \<or> performance (state (fire i st))
       = (performance (state st))\<lparr>current := max' (performance (state st))\<rparr>"
  by (simp add: fire_def recover_def setPerformanceCurrent_def set_state_def Let_def)

text \<open>An event leaves \<open>performance\<close> as it is, or sets \<open>current\<close> to \<open>min'\<close> or to
  \<open>max'\<close>.\<close>

lemma performance_step:
  "performance (state (step e st)) = performance (state st)
   \<or> performance (state (step e st))
       = (performance (state st))\<lparr>current := min' (performance (state st))\<rparr>
   \<or> performance (state (step e st))
       = (performance (state st))\<lparr>current := max' (performance (state st))\<rparr>"
proof (cases e)
  case Regress
  then show ?thesis by (simp add: performance_regress)
next
  case (Fire i)
  then show ?thesis using performance_fire [of i st] by auto
qed (simp_all add: setSize_def setCamera_def setPixelRatio_def set_state_def Let_def)

lemma performance_ok_step:
  assumes "performance_ok (performance (state st))"
  shows "performance_ok (performance (state (step e st)))"
proof -
  let ?p = "performance (state st)"
  have 1: "js_le (min' ?p) (current ?p)" and 2: "js_le (current ?p) (max' ?p)"
    using assms by (simp_all add: performance_ok_def)
  have 3: "js_le (min' ?p) (max' ?p)"
    using 1 2 by (rule js_le_trans)
  have 4: "js_le (min' ?p) (min' ?p)" and 5: "js_le (max' ?p) (max' ?p)"
    using 3 by (simp_all add: js_le_not_NaN js_le_refl)
  from performance_step [of e st] show ?thesis
    using 1 2 3 4 5 by (auto simp add: performance_ok_def)
qed

lemma performance_ok_run:
  "performance_ok (performance (state st)) \<Longrightarrow> performance_ok (performance (state (run evs st)))"
  by (induction evs arbitrary: st) (simp_all add: performance_ok_step)

lemma performance_ok_createMockStore:
  "StoreProps.performance props = None \<Longrightarrow>
   performance_ok (performance (state (createMockStore ap d props)))"
  by (simp add: performance_ok_def createMockStore_def setSize_def state_set_state with_default_def
      js_le_def js_eq_def Let_def split: option.splits)

text \<open>
  C8, as the code has it. If \<open>min' \<le> current \<le> max'\<close> holds in the store as it is
  created, which it does when \<^verbatim>\<open>props.performance\<close> is absent, then it holds after every
  sequence of events.
\<close>

theorem performance_bounds:
  assumes "js_le (min' (performance (state (createMockStore ap d props))))
                 (current (performance (state (createMockStore ap d props))))"
      and "js_le (current (performance (state (createMockStore ap d props))))
                 (max' (performance (state (createMockStore ap d props))))"
  shows "js_le (min' (performance (state (run evs (createMockStore ap d props)))))
               (current (performance (state (run evs (createMockStore ap d props)))))
       \<and> js_le (current (performance (state (run evs (createMockStore ap d props)))))
               (max' (performance (state (run evs (createMockStore ap d props)))))"
  using performance_ok_run [of "createMockStore ap d props" evs] assms
  by (simp add: performance_ok_def)

text \<open>A store created without options: the bounds hold at creation, and after
  \<open>regress\<close>, 200 milliseconds and the timer running.\<close>

theorem performance_bounds_witness:
  "js_le (min' (performance (state (createMockStore keep_camera (Num 1) default_props))))
         (current (performance (state (createMockStore keep_camera (Num 1) default_props))))
   \<and> js_le (current (performance (state (createMockStore keep_camera (Num 1) default_props))))
         (max' (performance (state (createMockStore keep_camera (Num 1) default_props))))
   \<and> js_le (min' (performance (state (run [Regress, Tick 200, Fire 0]
              (createMockStore keep_camera (Num 1) default_props)))))
         (current (performance (state (run [Regress, Tick 200, Fire 0]
              (createMockStore keep_camera (Num 1) default_props)))))
   \<and> js_le (current (performance (state (run [Regress, Tick 200, Fire 0]
              (createMockStore keep_camera (Num 1) default_props)))))
         (max' (performance (state (run [Regress, Tick 200, Fire 0]
              (createMockStore keep_camera (Num 1) default_props)))))"
proof -
  let ?st = "createMockStore keep_camera (Num 1) default_props"
  have h1: "js_le (min' (performance (state ?st))) (current (performance (state ?st)))"
    by (simp add: createMockStore_def default_props_def with_default_def Let_def js_le_def)
  have h2: "js_le (current (performance (state ?st))) (max' (performance (state ?st)))"
    by (simp add: createMockStore_def default_props_def with_default_def Let_def js_le_def js_eq_def)
  from h1 h2 performance_bounds [OF h1 h2, of "[Regress, Tick 200, Fire 0]"]
  show ?thesis by blast
qed

end
